theory Spec2Isabelle
  imports Complex_Main
begin

section \<open>Clock and calendar\<close>

text \<open>
  An instant is a number of milliseconds since the epoch, as \<^verbatim>\<open>Date.now()\<close> returns it and
  as an ISO string written by \<^verbatim>\<open>toISOString()\<close> reads back. A date string, as
  \<^verbatim>\<open>toDateString()\<close> prints it, names a local calendar day: it is modelled by the number of
  that day. The local time zone is a fixed offset \<open>tz\<close> in milliseconds (daylight saving
  changes are not modelled). \<^verbatim>\<open>new Date(s)\<close> of a date string is local midnight of that day.
  Every function that reads the clock takes the instant \<open>now\<close> it reads.
\<close>

type_synonym instant = int
type_synonym date_string = int

definition msPerDay :: int where
  "msPerDay = 1000 * 60 * 60 * 24"

definition toDateString :: "int \<Rightarrow> instant \<Rightarrow> date_string" where
  "toDateString tz t = (t + tz) div msPerDay"

definition parseDateString :: "int \<Rightarrow> date_string \<Rightarrow> instant" where
  "parseDateString tz d = d * msPerDay - tz"

section \<open>Storage: the localStorage utilities\<close>

text \<open>
  \<^verbatim>\<open>localStorage\<close> holds strings. A stored string is modelled by what \<^verbatim>\<open>JSON.parse\<close> makes of
  it: the empty string (which \<^verbatim>\<open>get\<close> tests for before parsing), text that does not parse, or
  the value it denotes. The store is typed by the records this program writes; a key is a
  string. Access can be refused altogether (\<open>denied\<close>: every call throws) and a write can
  exceed the quota (\<open>full\<close>).
\<close>

datatype js_error = SecurityError | QuotaExceededError | SyntaxError

datatype 'v payload = Empty | Malformed | Json 'v

record 'v local_storage =
  items :: "string \<Rightarrow> 'v payload option"
  denied :: bool
  full :: bool

definition getItem :: "'v local_storage \<Rightarrow> string \<Rightarrow> js_error + 'v payload option" where
  "getItem ls key = (if denied ls then Inl SecurityError else Inr (items ls key))"

definition setItem :: "'v local_storage \<Rightarrow> string \<Rightarrow> 'v payload \<Rightarrow> js_error + 'v local_storage" where
  "setItem ls key item =
     (if denied ls then Inl SecurityError
      else if full ls then Inl QuotaExceededError
      else Inr (ls\<lparr>items := (items ls)(key \<mapsto> item)\<rparr>))"

definition JSON_parse :: "'v payload \<Rightarrow> js_error + 'v" where
  "JSON_parse item = (case item of Json v \<Rightarrow> Inr v | _ \<Rightarrow> Inl SyntaxError)"

definition JSON_stringify :: "'v \<Rightarrow> 'v payload" where
  "JSON_stringify v = Json v"

text \<open>
  The outcome of a call is \<open>Inr\<close> the value it returns or \<open>Inl\<close> the error that leaves it.
  \<^verbatim>\<open>try { body } catch (error) { handler }\<close> hands an error of the body to the handler.
\<close>

definition try_catch :: "js_error + 'a \<Rightarrow> (js_error \<Rightarrow> js_error + 'a) \<Rightarrow> js_error + 'a" where
  "try_catch body handler = (case body of Inl error \<Rightarrow> handler error | Inr v \<Rightarrow> Inr v)"

text \<open>The body of \<^verbatim>\<open>get\<close>: \<^verbatim>\<open>item ? JSON.parse(item) : defaultValue\<close>.\<close>

definition get_body :: "'v local_storage \<Rightarrow> string \<Rightarrow> 'v \<Rightarrow> js_error + 'v" where
  "get_body ls key defaultValue =
     (case getItem ls key of
        Inl error \<Rightarrow> Inl error
      | Inr None \<Rightarrow> Inr defaultValue
      | Inr (Some Empty) \<Rightarrow> Inr defaultValue
      | Inr (Some item) \<Rightarrow> JSON_parse item)"

text \<open>The outcome of a call of \<^verbatim>\<open>get\<close>: the catch clause logs and returns the default.\<close>

definition get_call :: "'v local_storage \<Rightarrow> string \<Rightarrow> 'v \<Rightarrow> js_error + 'v" where
  "get_call ls key defaultValue =
     try_catch (get_body ls key defaultValue) (\<lambda>error. Inr defaultValue)"

text \<open>
  The value that a call of \<^verbatim>\<open>get\<close> returns, for its callers. The call always returns
  (\<open>get_call_returns\<close> below), so the second case never applies.
\<close>

definition get :: "'v local_storage \<Rightarrow> string \<Rightarrow> 'v \<Rightarrow> 'v" where
  "get ls key defaultValue =
     (case get_call ls key defaultValue of Inr v \<Rightarrow> v | Inl error \<Rightarrow> defaultValue)"

text \<open>
  \<^verbatim>\<open>set\<close> returns its success status; the store is returned beside it. The function is
  named \<open>set_storage\<close> here, and the outcome of a call \<open>set_call\<close>: it always returns too
  (\<open>set_call_returns\<close> below).
\<close>

definition set_body :: "'v local_storage \<Rightarrow> string \<Rightarrow> 'v \<Rightarrow> js_error + bool \<times> 'v local_storage" where
  "set_body ls key v =
     (case setItem ls key (JSON_stringify v) of
        Inl error \<Rightarrow> Inl error
      | Inr ls' \<Rightarrow> Inr (True, ls'))"

definition set_call :: "'v local_storage \<Rightarrow> string \<Rightarrow> 'v \<Rightarrow> js_error + bool \<times> 'v local_storage" where
  "set_call ls key v = try_catch (set_body ls key v) (\<lambda>error. Inr (False, ls))"

definition set_storage :: "'v local_storage \<Rightarrow> string \<Rightarrow> 'v \<Rightarrow> bool \<times> 'v local_storage" where
  "set_storage ls key v =
     (case set_call ls key v of Inr result \<Rightarrow> result | Inl error \<Rightarrow> (False, ls))"

definition STREAK_DATA :: string where
  "STREAK_DATA = ''lsat_streak_data''"

definition TIMER_DATA :: string where
  "TIMER_DATA = ''lsat_timer_data''"

section \<open>Persisted records\<close>

record StreakRecord =
  currentStreak :: int
  longestStreak :: int
  totalDays :: int
  lastVisit :: "instant option"
  startDate :: instant

record TimerStats =
  sessionsToday :: int
  totalSessions :: int
  totalMinutes :: real
  lastSession :: "date_string option"

text \<open>The default of \<^verbatim>\<open>getStreakData\<close> carries the instant of the read as its start date.\<close>

definition defaultStreakData :: "instant \<Rightarrow> StreakRecord" where
  "defaultStreakData now =
     \<lparr>currentStreak = 0, longestStreak = 0, totalDays = 0, lastVisit = None, startDate = now\<rparr>"

definition getStreakData :: "instant \<Rightarrow> StreakRecord local_storage \<Rightarrow> StreakRecord" where
  "getStreakData now ls = get ls STREAK_DATA (defaultStreakData now)"

definition setStreakData :: "StreakRecord local_storage \<Rightarrow> StreakRecord \<Rightarrow> StreakRecord local_storage" where
  "setStreakData ls d = snd (set_storage ls STREAK_DATA d)"

definition defaultTimerData :: TimerStats where
  "defaultTimerData =
     \<lparr>sessionsToday = 0, totalSessions = 0, totalMinutes = 0, lastSession = None\<rparr>"

definition getTimerData :: "TimerStats local_storage \<Rightarrow> TimerStats" where
  "getTimerData ls = get ls TIMER_DATA defaultTimerData"

definition setTimerData :: "TimerStats local_storage \<Rightarrow> TimerStats \<Rightarrow> TimerStats local_storage" where
  "setTimerData ls d = snd (set_storage ls TIMER_DATA d)"

definition incrementSession :: "int \<Rightarrow> instant \<Rightarrow> TimerStats local_storage \<Rightarrow> TimerStats local_storage" where
  "incrementSession tz now ls =
     (let d = getTimerData ls;
          today = toDateString tz now;
          d = (if lastSession d \<noteq> Some today then d\<lparr>sessionsToday := 0\<rparr> else d);
          d = d\<lparr>sessionsToday := sessionsToday d + 1\<rparr>;
          d = d\<lparr>totalSessions := totalSessions d + 1\<rparr>;
          d = d\<lparr>lastSession := Some today\<rparr>
      in setTimerData ls d)"

definition addStudyTime :: "real \<Rightarrow> TimerStats local_storage \<Rightarrow> TimerStats local_storage" where
  "addStudyTime minutes ls =
     (let d = getTimerData ls;
          d = d\<lparr>totalMinutes := totalMinutes d + minutes\<rparr>
      in setTimerData ls d)"

subsection \<open>Date utilities\<close>

definition getTodayString :: "int \<Rightarrow> instant \<Rightarrow> date_string" where
  "getTodayString tz now = toDateString tz now"

definition isToday :: "int \<Rightarrow> instant \<Rightarrow> instant option \<Rightarrow> bool" where
  "isToday tz now dateString =
     (case dateString of
        None \<Rightarrow> False
      | Some t \<Rightarrow> toDateString tz t = getTodayString tz now)"

text \<open>\<^verbatim>\<open>Math.floor(Math.abs(d2 - d1) / (1000 * 60 * 60 * 24))\<close> on two instants.\<close>

definition getDaysBetween :: "instant \<Rightarrow> instant \<Rightarrow> int" where
  "getDaysBetween d1 d2 = \<lfloor>real_of_int \<bar>d2 - d1\<bar> / real_of_int msPerDay\<rfloor>"

section \<open>Streak: the study streak tracker\<close>

text \<open>
  The tracker's state is its \<^verbatim>\<open>data\<close> record, the store it saves to, and the
  \<^verbatim>\<open>streakMilestone\<close> events it has dispatched on the document, oldest first (the streak
  each one carries). The page elements it writes to are not modelled.
\<close>

record Streak =
  data :: StreakRecord
  streak_storage :: "StreakRecord local_storage"
  streakMilestone :: "int list"

definition loadStreak :: "instant \<Rightarrow> Streak \<Rightarrow> Streak" where
  "loadStreak now s = s\<lparr>data := getStreakData now (streak_storage s)\<rparr>"

definition saveStreak :: "Streak \<Rightarrow> Streak" where
  "saveStreak s = s\<lparr>streak_storage := setStreakData (streak_storage s) (data s)\<rparr>"

definition milestones :: "int list" where
  "milestones = [3, 7, 14, 30, 50, 100]"

definition celebrateMilestone :: "int \<Rightarrow> Streak \<Rightarrow> Streak" where
  "celebrateMilestone streak s =
     (if streak \<in> set milestones then s\<lparr>streakMilestone := streakMilestone s @ [streak]\<rparr> else s)"

definition startStreak :: "instant \<Rightarrow> Streak \<Rightarrow> Streak" where
  "startStreak now s =
     (let d = data s;
          d = d\<lparr>currentStreak := 1\<rparr>;
          d = d\<lparr>longestStreak := max 1 (longestStreak d)\<rparr>;
          d = d\<lparr>totalDays := 1\<rparr>;
          d = d\<lparr>lastVisit := Some now\<rparr>;
          s = saveStreak (s\<lparr>data := d\<rparr>)
      in celebrateMilestone 1 s)"

definition incrementStreak :: "instant \<Rightarrow> Streak \<Rightarrow> Streak" where
  "incrementStreak now s =
     (let d = data s;
          d = d\<lparr>currentStreak := currentStreak d + 1\<rparr>;
          d = d\<lparr>totalDays := totalDays d + 1\<rparr>;
          d = d\<lparr>lastVisit := Some now\<rparr>;
          d = (if currentStreak d > longestStreak d then d\<lparr>longestStreak := currentStreak d\<rparr> else d);
          s = saveStreak (s\<lparr>data := d\<rparr>)
      in celebrateMilestone (currentStreak (data s)) s)"

definition resetStreak :: "instant \<Rightarrow> Streak \<Rightarrow> Streak" where
  "resetStreak now s =
     (let d = data s;
          d = d\<lparr>currentStreak := 1\<rparr>;
          d = d\<lparr>totalDays := totalDays d + 1\<rparr>;
          d = d\<lparr>lastVisit := Some now\<rparr>
      in saveStreak (s\<lparr>data := d\<rparr>))"

text \<open>
  \<^verbatim>\<open>checkStreak\<close> compares the last visit, an instant, with \<^verbatim>\<open>today\<close>, a date string:
  \<^verbatim>\<open>getDaysBetween\<close> reads the date string as local midnight of today.
\<close>

definition checkStreak :: "int \<Rightarrow> instant \<Rightarrow> Streak \<Rightarrow> Streak" where
  "checkStreak tz now s =
     (let today = getTodayString tz now in
      case lastVisit (data s) of
        None \<Rightarrow> startStreak now s
      | Some lv \<Rightarrow>
          if isToday tz now (Some lv) then s
          else
            (let daysSinceLastVisit = getDaysBetween lv (parseDateString tz today) in
             if daysSinceLastVisit = 1 then incrementStreak now s
             else if daysSinceLastVisit > 1 then resetStreak now s
             else s))"

section \<open>Timer: the Pomodoro study timer\<close>

text \<open>
  The timer's state is the \<^verbatim>\<open>state\<close> object's fields and the \<^verbatim>\<open>durations\<close> object, a table
  from mode to seconds; beside them the store of the session statistics and the
  \<^verbatim>\<open>timerComplete\<close> events dispatched on the document, oldest first (message and mode). The
  field \<open>interval\<close> tells whether an interval handle is held. \<open>endTime\<close> is \<open>None\<close> when the
  field is null or not yet set; \<^verbatim>\<open>tick\<close> reads null as 0. Seconds and milliseconds are
  integers. Page elements, the notification sound and the browser notification are not
  modelled.
\<close>

datatype mode = work | break

record Timer =
  isRunning :: bool
  isPaused :: bool
  mode :: mode
  timeRemaining :: int
  interval :: bool
  startTime :: "instant option"
  endTime :: "instant option"
  pausedTime :: int
  durations :: "mode \<Rightarrow> int"
  timer_storage :: "TimerStats local_storage"
  timerComplete :: "(string \<times> mode) list"

text \<open>The state and durations of the object literal, over a given store.\<close>

definition Timer_initial :: "TimerStats local_storage \<Rightarrow> Timer" where
  "Timer_initial ls =
     \<lparr>isRunning = False, isPaused = False, mode = work, timeRemaining = 25 * 60,
      interval = False, startTime = None, endTime = None, pausedTime = 0,
      durations = (\<lambda>m. case m of work \<Rightarrow> 25 * 60 | break \<Rightarrow> 5 * 60),
      timer_storage = ls, timerComplete = []\<rparr>"

text \<open>\<^verbatim>\<open>!this.state.startTime\<close> holds of null and of the instant 0.\<close>

definition falsy :: "instant option \<Rightarrow> bool" where
  "falsy t = (t = None \<or> t = Some 0)"

definition start :: "instant \<Rightarrow> Timer \<Rightarrow> Timer" where
  "start now s =
     (if isRunning s then s
      else
        (let s = s\<lparr>isRunning := True\<rparr>;
             s = s\<lparr>isPaused := False\<rparr>;
             s = (if falsy (startTime s)
                  then (let s = s\<lparr>startTime := Some now\<rparr>
                        in s\<lparr>endTime := Some (now + timeRemaining s * 1000)\<rparr>)
                  else s\<lparr>endTime := Some (now + timeRemaining s * 1000)\<rparr>)
         in s\<lparr>interval := True\<rparr>))"

definition pause :: "Timer \<Rightarrow> Timer" where
  "pause s =
     (if \<not> isRunning s then s
      else
        (let s = s\<lparr>isRunning := False\<rparr>;
             s = s\<lparr>isPaused := True\<rparr>
         in if interval s then s\<lparr>interval := False\<rparr> else s))"

definition reset :: "Timer \<Rightarrow> Timer" where
  "reset s =
     (let s = pause s;
          s = s\<lparr>timeRemaining := durations s (mode s)\<rparr>;
          s = s\<lparr>startTime := None\<rparr>;
          s = s\<lparr>endTime := None\<rparr>
      in s\<lparr>isPaused := False\<rparr>)"

definition changeMode :: "mode \<Rightarrow> Timer \<Rightarrow> Timer" where
  "changeMode m s =
     (let s = pause s;
          s = s\<lparr>mode := m\<rparr>;
          s = s\<lparr>timeRemaining := durations s m\<rparr>;
          s = s\<lparr>startTime := None\<rparr>;
          s = s\<lparr>endTime := None\<rparr>
      in s\<lparr>isPaused := False\<rparr>)"

text \<open>The event's detail carries the mode at the time of dispatch.\<close>

definition showCompletionMessage :: "string \<Rightarrow> Timer \<Rightarrow> Timer" where
  "showCompletionMessage message s = s\<lparr>timerComplete := timerComplete s @ [(message, mode s)]\<rparr>"

text \<open>\<^verbatim>\<open>complete\<close>, named \<open>complete_timer\<close> here. The messages are without their emoji.\<close>

definition complete_timer :: "int \<Rightarrow> instant \<Rightarrow> Timer \<Rightarrow> Timer" where
  "complete_timer tz now s =
     (let s = pause s in
      if mode s = work then
        (let ls = incrementSession tz now (timer_storage s);
             ls = addStudyTime (real_of_int (durations s work) / 60) ls;
             s = s\<lparr>timer_storage := ls\<rparr>;
             s = showCompletionMessage ''Work session complete! Time for a break?'' s
         in changeMode break s)
      else
        (let s = showCompletionMessage ''Break complete! Ready to get back to studying?'' s
         in changeMode work s))"

definition tick :: "int \<Rightarrow> instant \<Rightarrow> Timer \<Rightarrow> Timer" where
  "tick tz now s =
     (let timeLeft =
            max 0 \<lceil>real_of_int ((case endTime s of None \<Rightarrow> 0 | Some e \<Rightarrow> e) - now) / 1000\<rceil>;
          s = s\<lparr>timeRemaining := timeLeft\<rparr>
      in if timeRemaining s \<le> 0 then complete_timer tz now s else s)"

definition setDurations :: "int \<Rightarrow> int \<Rightarrow> Timer \<Rightarrow> Timer" where
  "setDurations workMinutes breakMinutes s =
     (let s = s\<lparr>durations := (durations s)(work := workMinutes * 60)\<rparr>;
          s = s\<lparr>durations := (durations s)(break := breakMinutes * 60)\<rparr>
      in reset s)"

text \<open>
  \<^verbatim>\<open>applySettings\<close> reads the two input fields with \<^verbatim>\<open>parseInt\<close>, which gives a number or
  NaN (\<open>None\<close>); a comparison with NaN is false.
\<close>

definition applySettings :: "int option \<Rightarrow> int option \<Rightarrow> Timer \<Rightarrow> Timer" where
  "applySettings workInput breakInput s =
     (case (workInput, breakInput) of
        (Some workMinutes, Some breakMinutes) \<Rightarrow>
          if workMinutes > 0 \<and> breakMinutes > 0 then setDurations workMinutes breakMinutes s else s
      | _ \<Rightarrow> s)"

text \<open>
  The callback that \<^verbatim>\<open>start\<close> installs with \<^verbatim>\<open>setInterval\<close> runs \<^verbatim>\<open>tick\<close> while the handle is
  held; \<open>ticks tz t n\<close> is \<open>n\<close> callbacks one second apart, the first one second after \<open>t\<close>.
\<close>

definition interval_callback :: "int \<Rightarrow> instant \<Rightarrow> Timer \<Rightarrow> Timer" where
  "interval_callback tz now s = (if interval s then tick tz now s else s)"

fun ticks :: "int \<Rightarrow> instant \<Rightarrow> nat \<Rightarrow> Timer \<Rightarrow> Timer" where
  "ticks tz t 0 s = s"
| "ticks tz t (Suc n) s = ticks tz (t + 1000) n (interval_callback tz (t + 1000) s)"

section \<open>Initial states, scenarios and reachable states\<close>

definition empty_storage :: "'v local_storage" where
  "empty_storage = \<lparr>items = (\<lambda>k. None), denied = False, full = False\<rparr>"

text \<open>The tracker as \<^verbatim>\<open>init\<close> has it after \<^verbatim>\<open>loadStreak\<close>, before \<^verbatim>\<open>checkStreak\<close>.\<close>

definition Streak_loaded :: "instant \<Rightarrow> StreakRecord local_storage \<Rightarrow> Streak" where
  "Streak_loaded now ls = \<lparr>data = getStreakData now ls, streak_storage = ls, streakMilestone = []\<rparr>"

text \<open>
  The records that the three updates of the tracker reach from the default record, where
  \<^verbatim>\<open>resetStreak\<close> runs on a record that has a last visit: \<^verbatim>\<open>checkStreak\<close> runs it nowhere else.
\<close>

inductive streak_reachable :: "Streak \<Rightarrow> bool" where
  default: "streak_reachable \<lparr>data = defaultStreakData t, streak_storage = ls, streakMilestone = ev\<rparr>"
| started: "streak_reachable s \<Longrightarrow> streak_reachable (startStreak now s)"
| incremented: "streak_reachable s \<Longrightarrow> streak_reachable (incrementStreak now s)"
| reset: "streak_reachable s \<Longrightarrow> lastVisit (data s) \<noteq> None \<Longrightarrow> streak_reachable (resetStreak now s)"

text \<open>
  The pause and resume scenario: start at \<open>t\<close>, five interval callbacks, pause, resume
  \<open>wait\<close> milliseconds after the last callback, and one tick at the instant of the resume.
\<close>

definition pause_resume :: "int \<Rightarrow> instant \<Rightarrow> int \<Rightarrow> Timer \<Rightarrow> Timer" where
  "pause_resume tz t wait s =
     (let s = start t s;
          s = ticks tz t 5 s;
          s = pause s;
          s = start (t + 5000 + wait) s
      in tick tz (t + 5000 + wait) s)"

section \<open>Fail-soft storage access\<close>

lemma get_call_returns: "get_call ls key d = Inr (get ls key d)"
  by (simp add: get_def get_call_def try_catch_def split: sum.splits)

lemma set_call_returns: "set_call ls key v = Inr (set_storage ls key v)"
  by (simp add: set_storage_def set_call_def try_catch_def split: sum.splits)

lemma get_default_on_error: "get_body ls key d = Inl e \<Longrightarrow> get ls key d = d"
  by (simp add: get_def get_call_def try_catch_def)

lemma get_body_malformed:
  "\<not> denied ls \<Longrightarrow> items ls key = Some Malformed \<Longrightarrow> get_body ls key d = Inl SyntaxError"
  by (simp add: get_body_def getItem_def JSON_parse_def)

lemma get_body_denied: "denied ls \<Longrightarrow> get_body ls key d = Inl SecurityError"
  by (simp add: get_body_def getItem_def)

lemma get_stored:
  "\<not> denied ls \<Longrightarrow> items ls key = Some (Json v) \<Longrightarrow> get ls key d = v"
  by (simp add: get_def get_call_def try_catch_def get_body_def getItem_def JSON_parse_def)

lemma get_absent: "items ls key = None \<Longrightarrow> get ls key d = d"
  by (simp add: get_def get_call_def try_catch_def get_body_def getItem_def)

lemma set_storage_ok:
  "\<not> denied ls \<Longrightarrow> \<not> full ls \<Longrightarrow>
   set_storage ls key v = (True, ls\<lparr>items := (items ls)(key \<mapsto> Json v)\<rparr>)"
  by (simp add: set_storage_def set_call_def try_catch_def set_body_def setItem_def
      JSON_stringify_def)

lemma set_storage_failed: "denied ls \<or> full ls \<Longrightarrow> set_storage ls key v = (False, ls)"
  by (auto simp: set_storage_def set_call_def try_catch_def set_body_def setItem_def)

text \<open>
  Claim C9. No error leaves a call of \<^verbatim>\<open>get\<close> or \<^verbatim>\<open>set\<close>: each call returns a value. A
  read whose key is missing, or whose body throws (access refused, or a payload that does
  not deserialize), returns the caller's default. A write whose \<^verbatim>\<open>setItem\<close> throws returns
  false and leaves the store as it was; a write that succeeds returns true, and the key then
  reads back as the value written.
\<close>

theorem storage_fail_soft:
  "get_call ls key d = Inr (get ls key d)
   \<and> set_call ls key v = Inr (set_storage ls key v)
   \<and> (items ls key = None \<longrightarrow> get ls key d = d)
   \<and> (denied ls \<longrightarrow> get_body ls key d = Inl SecurityError \<and> get ls key d = d)
   \<and> (\<not> denied ls \<and> items ls key = Some Malformed \<longrightarrow>
        get_body ls key d = Inl SyntaxError \<and> get ls key d = d)
   \<and> (\<forall>e. get_body ls key d = Inl e \<longrightarrow> get ls key d = d)
   \<and> (\<forall>e. setItem ls key (JSON_stringify v) = Inl e \<longrightarrow> set_storage ls key v = (False, ls))
   \<and> (\<forall>ls'. setItem ls key (JSON_stringify v) = Inr ls' \<longrightarrow>
        set_storage ls key v = (True, ls') \<and> get ls' key d = v)"
proof -
  have rd: "\<forall>e. get_body ls key d = Inl e \<longrightarrow> get ls key d = d"
    by (simp add: get_default_on_error)
  have wr_fail: "\<forall>e. setItem ls key (JSON_stringify v) = Inl e \<longrightarrow> set_storage ls key v = (False, ls)"
    by (simp add: set_storage_def set_call_def try_catch_def set_body_def)
  have wr_ok: "\<forall>ls'. setItem ls key (JSON_stringify v) = Inr ls' \<longrightarrow>
        set_storage ls key v = (True, ls') \<and> get ls' key d = v"
    by (auto simp: set_storage_def set_call_def try_catch_def set_body_def setItem_def
        JSON_stringify_def get_def get_call_def get_body_def getItem_def JSON_parse_def
        split: if_splits)
  show ?thesis
    using rd wr_fail wr_ok
    by (simp add: get_call_returns set_call_returns get_absent get_body_denied
        get_body_malformed get_default_on_error)
qed

text \<open>
  Witness for C9: a store whose timer entry does not parse and whose quota is used up gives
  the default on a read and false on a write; with room left, the write returns true and
  reads back.
\<close>

theorem storage_fail_soft_witness:
  "get_call \<lparr>items = [TIMER_DATA \<mapsto> Malformed], denied = False, full = True\<rparr> TIMER_DATA (7::int) = Inr 7
   \<and> get \<lparr>items = [TIMER_DATA \<mapsto> Malformed], denied = False, full = True\<rparr> TIMER_DATA (7::int) = 7
   \<and> fst (set_storage \<lparr>items = [TIMER_DATA \<mapsto> Malformed], denied = False, full = True\<rparr>
        TIMER_DATA (5::int)) = False
   \<and> fst (set_storage \<lparr>items = [TIMER_DATA \<mapsto> Malformed], denied = False, full = False\<rparr>
        TIMER_DATA (5::int)) = True
   \<and> get (snd (set_storage \<lparr>items = [TIMER_DATA \<mapsto> Malformed], denied = False, full = False\<rparr>
        TIMER_DATA (5::int))) TIMER_DATA 7 = 5"
  using storage_fail_soft [of "\<lparr>items = [TIMER_DATA \<mapsto> Malformed], denied = False, full = True\<rparr>"
      TIMER_DATA "7::int" 5]
    storage_fail_soft [of "\<lparr>items = [TIMER_DATA \<mapsto> Malformed], denied = False, full = False\<rparr>"
      TIMER_DATA "7::int" 5]
  by (simp add: setItem_def JSON_stringify_def)

section \<open>Streak reconciliation\<close>

lemmas streak_defs = checkStreak_def startStreak_def incrementStreak_def resetStreak_def
  saveStreak_def celebrateMilestone_def isToday_def getTodayString_def

lemmas calendar_defs = toDateString_def parseDateString_def getDaysBetween_def msPerDay_def

text \<open>
  A last visit on the day before today, at any time but local midnight, is less than a day
  before today's midnight: the day count is 0 and \<^verbatim>\<open>checkStreak\<close> changes nothing.
\<close>

lemma getDaysBetween_div: "getDaysBetween d1 d2 = \<bar>d2 - d1\<bar> div msPerDay"
  by (simp only: getDaysBetween_def floor_divide_of_int_eq)

lemma getDaysBetween_yesterday:
  assumes "toDateString tz now = toDateString tz lv + 1" "(lv + tz) mod msPerDay \<noteq> 0"
  shows "getDaysBetween lv (parseDateString tz (toDateString tz now)) = 0"
proof -
  define m where "m = (lv + tz) mod msPerDay"
  have D: "0 < msPerDay" by (simp add: msPerDay_def)
  have "0 \<le> m" and "m \<noteq> 0" and m2: "m < msPerDay"
    using assms(2) D by (simp_all add: m_def)
  then have m: "0 < m" "m < msPerDay" by simp_all
  have "lv + tz = (lv + tz) div msPerDay * msPerDay + m"
    by (simp add: m_def)
  then have "parseDateString tz (toDateString tz now) - lv = msPerDay - m"
    using assms(1) by (simp add: parseDateString_def toDateString_def algebra_simps)
  then have "getDaysBetween lv (parseDateString tz (toDateString tz now)) = \<bar>msPerDay - m\<bar> div msPerDay"
    by (simp only: getDaysBetween_div)
  also have "\<dots> = 0" using m by simp
  finally show ?thesis .
qed

lemma checkStreak_yesterday_unchanged:
  assumes "lastVisit (data s) = Some lv" "toDateString tz now = toDateString tz lv + 1"
    "(lv + tz) mod msPerDay \<noteq> 0"
  shows "checkStreak tz now s = s"
  using assms getDaysBetween_yesterday [OF assms(2,3)]
  by (simp add: checkStreak_def isToday_def getTodayString_def)

text \<open>
  Claim C1, evaluated. First visit at 10:00 on day 0, second at 10:00 on day 1, third at
  10:00 on day 3 (time zone offset 0), from the default record over an empty store. The
  first visit gives 1, 1, 1. The second changes nothing, where the claim has 2, 2, 2: the
  last visit is 14 hours before the midnight of day 1, which \<^verbatim>\<open>getDaysBetween\<close> counts
  as 0 days. The third gives 1, 1, 2, where the claim has 1, 2, 3.
\<close>

theorem checkStreak_consecutive_days_at_ten:
  "toDateString 0 36000000 = 0 \<and> toDateString 0 122400000 = 1 \<and> toDateString 0 295200000 = 3
   \<and> data (Streak_loaded 36000000 empty_storage) = defaultStreakData 36000000
   \<and> data (checkStreak 0 36000000 (Streak_loaded 36000000 empty_storage)) =
       \<lparr>currentStreak = 1, longestStreak = 1, totalDays = 1,
        lastVisit = Some 36000000, startDate = 36000000\<rparr>
   \<and> data (checkStreak 0 122400000
        (checkStreak 0 36000000 (Streak_loaded 36000000 empty_storage))) =
       \<lparr>currentStreak = 1, longestStreak = 1, totalDays = 1,
        lastVisit = Some 36000000, startDate = 36000000\<rparr>
   \<and> data (checkStreak 0 295200000 (checkStreak 0 122400000
        (checkStreak 0 36000000 (Streak_loaded 36000000 empty_storage)))) =
       \<lparr>currentStreak = 1, longestStreak = 1, totalDays = 2,
        lastVisit = Some 295200000, startDate = 36000000\<rparr>"
  by (simp add: Streak_loaded_def empty_storage_def getStreakData_def get_absent
      defaultStreakData_def streak_defs calendar_defs milestones_def Let_def)

text \<open>
  When every visit falls exactly on local midnight, the scenario of C1 comes out as
  the specification has it.
\<close>

lemma checkStreak_consecutive_days_at_midnight:
  "data (checkStreak 0 0 (Streak_loaded 0 empty_storage)) =
       \<lparr>currentStreak = 1, longestStreak = 1, totalDays = 1, lastVisit = Some 0, startDate = 0\<rparr>
   \<and> data (checkStreak 0 86400000 (checkStreak 0 0 (Streak_loaded 0 empty_storage))) =
       \<lparr>currentStreak = 2, longestStreak = 2, totalDays = 2,
        lastVisit = Some 86400000, startDate = 0\<rparr>
   \<and> data (checkStreak 0 259200000 (checkStreak 0 86400000
        (checkStreak 0 0 (Streak_loaded 0 empty_storage)))) =
       \<lparr>currentStreak = 1, longestStreak = 2, totalDays = 3,
        lastVisit = Some 259200000, startDate = 0\<rparr>"
  by (simp add: Streak_loaded_def empty_storage_def getStreakData_def get_absent
      defaultStreakData_def streak_defs calendar_defs milestones_def Let_def)

text \<open>
  Claim C5. When the last visit falls on the calendar day of \<open>now\<close>, \<^verbatim>\<open>checkStreak\<close> returns
  the tracker as it was: the record with all its fields, the store and the events.
\<close>

theorem checkStreak_same_day_unchanged:
  "lastVisit (data s) = Some lv \<Longrightarrow> toDateString tz lv = toDateString tz now \<Longrightarrow>
   checkStreak tz now s = s"
  by (simp add: checkStreak_def isToday_def getTodayString_def)

text \<open>Witness for C5: last visit at 10:00 on day 0, reconciled again at 11:06:40 that day.\<close>

theorem checkStreak_same_day_unchanged_witness:
  "toDateString 0 36000000 = toDateString 0 40000000
   \<and> checkStreak 0 40000000
        \<lparr>data = \<lparr>currentStreak = 2, longestStreak = 4, totalDays = 9,
                 lastVisit = Some 36000000, startDate = 5\<rparr>,
         streak_storage = empty_storage, streakMilestone = []\<rparr>
      = \<lparr>data = \<lparr>currentStreak = 2, longestStreak = 4, totalDays = 9,
                 lastVisit = Some 36000000, startDate = 5\<rparr>,
         streak_storage = empty_storage, streakMilestone = []\<rparr>"
  using checkStreak_same_day_unchanged
    [of "\<lparr>data = \<lparr>currentStreak = 2, longestStreak = 4, totalDays = 9,
                 lastVisit = Some 36000000, startDate = 5\<rparr>,
         streak_storage = empty_storage, streakMilestone = []\<rparr>" 36000000 0 40000000]
  by (simp add: toDateString_def msPerDay_def)

text \<open>
  A second reconciliation on the same calendar day changes nothing, whatever the first
  one did.
\<close>

lemma checkStreak_twice_same_day:
  "toDateString tz now' = toDateString tz now \<Longrightarrow>
   checkStreak tz now' (checkStreak tz now s) = checkStreak tz now s"
  by (auto simp: streak_defs Let_def split: option.splits)

section \<open>Milestone events\<close>

lemma streak_updates_milestone:
  "streakMilestone (startStreak now s) = streakMilestone s"
  "streakMilestone (resetStreak now s) = streakMilestone s"
  "streakMilestone (incrementStreak now s) =
     streakMilestone s @
       (if currentStreak (data s) + 1 \<in> set milestones then [currentStreak (data s) + 1] else [])"
  by (simp_all add: startStreak_def resetStreak_def incrementStreak_def saveStreak_def
      celebrateMilestone_def milestones_def Let_def)

text \<open>
  Claim C7. \<^verbatim>\<open>checkStreak\<close> dispatches one \<^verbatim>\<open>streakMilestone\<close> event, carrying the new streak,
  when it changes \<open>currentStreak\<close> to one of 3, 7, 14, 30, 50, 100, and none otherwise; on a
  record last visited on the calendar day of \<open>now\<close> it dispatches none.
\<close>

theorem checkStreak_milestone_once:
  "streakMilestone (checkStreak tz now s) =
     streakMilestone s @
       (if currentStreak (data (checkStreak tz now s)) \<noteq> currentStreak (data s)
           \<and> currentStreak (data (checkStreak tz now s)) \<in> {3, 7, 14, 30, 50, 100}
        then [currentStreak (data (checkStreak tz now s))] else [])
   \<and> (\<forall>lv. lastVisit (data s) = Some lv \<and> toDateString tz lv = toDateString tz now \<longrightarrow>
         streakMilestone (checkStreak tz now s) = streakMilestone s)"
  by (auto simp: streak_defs Let_def milestones_def split: option.splits)

text \<open>
  Witness for C7: a streak of 2 last visited at midnight of day 0 becomes 3 on day 1 with one
  event; reconciling again later on day 1 adds none.
\<close>

theorem checkStreak_milestone_once_witness:
  "streakMilestone (checkStreak 0 90000000
      \<lparr>data = \<lparr>currentStreak = 2, longestStreak = 2, totalDays = 2,
               lastVisit = Some 0, startDate = 0\<rparr>,
       streak_storage = empty_storage, streakMilestone = []\<rparr>) = [3]
   \<and> streakMilestone (checkStreak 0 100000000 (checkStreak 0 90000000
      \<lparr>data = \<lparr>currentStreak = 2, longestStreak = 2, totalDays = 2,
               lastVisit = Some 0, startDate = 0\<rparr>,
       streak_storage = empty_storage, streakMilestone = []\<rparr>)) = [3]"
  using checkStreak_milestone_once [of 0 90000000
      "\<lparr>data = \<lparr>currentStreak = 2, longestStreak = 2, totalDays = 2,
               lastVisit = Some 0, startDate = 0\<rparr>,
       streak_storage = empty_storage, streakMilestone = []\<rparr>"]
    checkStreak_milestone_once [of 0 100000000 "checkStreak 0 90000000
      \<lparr>data = \<lparr>currentStreak = 2, longestStreak = 2, totalDays = 2,
               lastVisit = Some 0, startDate = 0\<rparr>,
       streak_storage = empty_storage, streakMilestone = []\<rparr>"]
  by (simp add: streak_defs calendar_defs milestones_def Let_def)

section \<open>The longest streak bounds the current one\<close>

lemma streak_reachable_invariant:
  "streak_reachable s \<Longrightarrow>
   0 \<le> currentStreak (data s) \<and> currentStreak (data s) \<le> longestStreak (data s)
   \<and> (lastVisit (data s) \<noteq> None \<longrightarrow> 1 \<le> longestStreak (data s))"
proof (induction rule: streak_reachable.induct)
  case (default t ls ev)
  then show ?case by (simp add: defaultStreakData_def)
next
  case (started s now)
  then show ?case by (simp add: startStreak_def saveStreak_def celebrateMilestone_def Let_def)
next
  case (incremented s now)
  then show ?case by (simp add: incrementStreak_def saveStreak_def celebrateMilestone_def Let_def)
next
  case (reset s now)
  then show ?case by (simp add: resetStreak_def saveStreak_def Let_def)
qed

text \<open>
  Every run of \<^verbatim>\<open>checkStreak\<close> stays within these records: it calls \<^verbatim>\<open>resetStreak\<close> only
  past the test for a missing last visit.
\<close>

lemma checkStreak_reachable: "streak_reachable s \<Longrightarrow> streak_reachable (checkStreak tz now s)"
  by (auto simp: checkStreak_def Let_def split: option.splits
      intro: streak_reachable.started streak_reachable.incremented streak_reachable.reset)

text \<open>
  Counterexample for C6 as stated: \<^verbatim>\<open>resetStreak\<close> on the default record sets the current
  streak to 1 and leaves the longest at 0.
\<close>

theorem resetStreak_default_counterexample:
  "currentStreak (data (resetStreak 0
      \<lparr>data = defaultStreakData 0, streak_storage = empty_storage, streakMilestone = []\<rparr>)) = 1
   \<and> longestStreak (data (resetStreak 0
      \<lparr>data = defaultStreakData 0, streak_storage = empty_storage, streakMilestone = []\<rparr>)) = 0
   \<and> \<not> longestStreak (data (resetStreak 0
      \<lparr>data = defaultStreakData 0, streak_storage = empty_storage, streakMilestone = []\<rparr>))
       \<ge> currentStreak (data (resetStreak 0
      \<lparr>data = defaultStreakData 0, streak_storage = empty_storage, streakMilestone = []\<rparr>))"
  by (simp add: resetStreak_def saveStreak_def defaultStreakData_def Let_def)

text \<open>
  Claim C6, amended. For every record reached from the default record by \<^verbatim>\<open>startStreak\<close>,
  \<^verbatim>\<open>incrementStreak\<close>, and \<^verbatim>\<open>resetStreak\<close> on a record that has a last visit, the longest
  streak is at least the current streak.
\<close>

theorem longestStreak_ge_currentStreak:
  "streak_reachable s \<Longrightarrow> longestStreak (data s) \<ge> currentStreak (data s)"
  by (simp add: streak_reachable_invariant)

text \<open>Witness for C6: a start, an increment and a reset from the default record.\<close>

theorem longestStreak_ge_currentStreak_witness:
  "streak_reachable (resetStreak 9 (incrementStreak 5 (startStreak 1
      \<lparr>data = defaultStreakData 0, streak_storage = empty_storage, streakMilestone = []\<rparr>)))
   \<and> longestStreak (data (resetStreak 9 (incrementStreak 5 (startStreak 1
      \<lparr>data = defaultStreakData 0, streak_storage = empty_storage, streakMilestone = []\<rparr>)))) = 2
   \<and> currentStreak (data (resetStreak 9 (incrementStreak 5 (startStreak 1
      \<lparr>data = defaultStreakData 0, streak_storage = empty_storage, streakMilestone = []\<rparr>)))) = 1"
proof -
  let ?s0 = "\<lparr>data = defaultStreakData 0, streak_storage = empty_storage, streakMilestone = []\<rparr>"
  let ?s2 = "incrementStreak 5 (startStreak 1 ?s0)"
  have r2: "streak_reachable ?s2"
    by (intro streak_reachable.incremented streak_reachable.started streak_reachable.default)
  have lv: "lastVisit (data ?s2) \<noteq> None"
    by (simp add: incrementStreak_def startStreak_def saveStreak_def celebrateMilestone_def Let_def)
  have r3: "streak_reachable (resetStreak 9 ?s2)"
    using r2 lv by (rule streak_reachable.reset)
  have vals: "longestStreak (data (resetStreak 9 ?s2)) = 2 \<and> currentStreak (data (resetStreak 9 ?s2)) = 1"
    by (simp add: resetStreak_def incrementStreak_def startStreak_def saveStreak_def
        celebrateMilestone_def defaultStreakData_def Let_def)
  show ?thesis
    using r3 vals longestStreak_ge_currentStreak [OF r3] by simp
qed


section \<open>Timer: reset and durations\<close>

lemma pause_fields:
  "pause s = s\<lparr>isRunning := False, isPaused := (isRunning s \<or> isPaused s),
               interval := (\<not> isRunning s \<and> interval s)\<rparr>"
  by (simp add: pause_def Let_def)

lemma reset_fields:
  "reset s = s\<lparr>isRunning := False, isPaused := False, timeRemaining := durations s (mode s),
               interval := (\<not> isRunning s \<and> interval s), startTime := None, endTime := None\<rparr>"
  by (simp add: reset_def pause_def Let_def)

lemma changeMode_fields:
  "changeMode m s = s\<lparr>isRunning := False, isPaused := False, mode := m,
               timeRemaining := durations s m,
               interval := (\<not> isRunning s \<and> interval s), startTime := None, endTime := None\<rparr>"
  by (simp add: changeMode_def pause_def Let_def)

text \<open>
  Claim C10. \<^verbatim>\<open>reset\<close> keeps the mode, the durations, the store and the dispatched events;
  it does not depend on the store; it sets \<open>isRunning\<close> and \<open>isPaused\<close> to false, clears
  \<open>startTime\<close> and \<open>endTime\<close>, sets \<open>timeRemaining\<close> to the duration of the current mode, and
  gives up the interval handle of a running timer. No other field changes.
\<close>

theorem reset_frame:
  "mode (reset s) = mode s
   \<and> timer_storage (reset s) = timer_storage s
   \<and> reset (s\<lparr>timer_storage := ls\<rparr>) = (reset s)\<lparr>timer_storage := ls\<rparr>
   \<and> reset s = s\<lparr>isRunning := False, isPaused := False,
                  timeRemaining := durations s (mode s),
                  interval := (if isRunning s then False else interval s),
                  startTime := None, endTime := None\<rparr>"
  by (simp add: reset_def pause_def Let_def)

lemma applySettings_rejects:
  "\<not> (0 < workMinutes \<and> 0 < breakMinutes) \<Longrightarrow>
   applySettings (Some workMinutes) (Some breakMinutes) s = s"
  by (auto simp: applySettings_def)

text \<open>
  Claim C8. For arguments above 0, \<^verbatim>\<open>setDurations\<close> sets the work and break durations to
  sixty times the arguments and resets: the timer is neither running nor paused, in the mode
  it was in, with the new duration of that mode as its remaining time and no start or end
  time. \<^verbatim>\<open>applySettings\<close> calls it exactly for such arguments.
\<close>

theorem setDurations_resets:
  assumes "0 < workMinutes" and "0 < breakMinutes"
  shows "durations (setDurations workMinutes breakMinutes s) work = workMinutes * 60
   \<and> durations (setDurations workMinutes breakMinutes s) break = breakMinutes * 60
   \<and> setDurations workMinutes breakMinutes s =
       reset (s\<lparr>durations := (durations s)(work := workMinutes * 60, break := breakMinutes * 60)\<rparr>)
   \<and> \<not> isRunning (setDurations workMinutes breakMinutes s)
   \<and> \<not> isPaused (setDurations workMinutes breakMinutes s)
   \<and> mode (setDurations workMinutes breakMinutes s) = mode s
   \<and> timeRemaining (setDurations workMinutes breakMinutes s) =
       (case mode s of work \<Rightarrow> workMinutes * 60 | break \<Rightarrow> breakMinutes * 60)
   \<and> startTime (setDurations workMinutes breakMinutes s) = None
   \<and> endTime (setDurations workMinutes breakMinutes s) = None
   \<and> applySettings (Some workMinutes) (Some breakMinutes) s = setDurations workMinutes breakMinutes s"
  using assms
  by (simp add: setDurations_def applySettings_def reset_fields Let_def split: mode.splits)

text \<open>
  Witness for C8: \<^verbatim>\<open>setDurations(50, 10)\<close> on the initial timer, which is idle in work mode,
  makes the remaining time 3000 seconds.
\<close>

theorem setDurations_resets_witness:
  "mode (Timer_initial empty_storage) = work
   \<and> \<not> isRunning (Timer_initial empty_storage) \<and> \<not> isPaused (Timer_initial empty_storage)
   \<and> timeRemaining (setDurations 50 10 (Timer_initial empty_storage)) = 3000
   \<and> durations (setDurations 50 10 (Timer_initial empty_storage)) work = 3000
   \<and> durations (setDurations 50 10 (Timer_initial empty_storage)) break = 600
   \<and> \<not> isRunning (setDurations 50 10 (Timer_initial empty_storage))
   \<and> \<not> isPaused (setDurations 50 10 (Timer_initial empty_storage))"
proof -
  have m: "mode (Timer_initial empty_storage) = work"
    and i: "\<not> isRunning (Timer_initial empty_storage) \<and> \<not> isPaused (Timer_initial empty_storage)"
    by (simp_all add: Timer_initial_def)
  show ?thesis
    using m i setDurations_resets [of 50 10 "Timer_initial empty_storage"]
    by (simp add: reset_fields)
qed


section \<open>Timer: ticking and completion\<close>

lemma complete_timer_fields:
  "complete_timer tz now s =
     s\<lparr>isRunning := False, isPaused := False,
       mode := (case mode s of work \<Rightarrow> break | break \<Rightarrow> work),
       timeRemaining := durations s (case mode s of work \<Rightarrow> break | break \<Rightarrow> work),
       interval := (\<not> isRunning s \<and> interval s), startTime := None, endTime := None,
       timer_storage :=
         (case mode s of
            work \<Rightarrow> addStudyTime (real_of_int (durations s work) / 60)
                      (incrementSession tz now (timer_storage s))
          | break \<Rightarrow> timer_storage s),
       timerComplete := timerComplete s @
         [(case mode s of
             work \<Rightarrow> ''Work session complete! Time for a break?''
           | break \<Rightarrow> ''Break complete! Ready to get back to studying?'', mode s)]\<rparr>"
  by (cases "mode s")
    (simp_all add: complete_timer_def changeMode_fields pause_fields showCompletionMessage_def Let_def)

lemma tick_unfold:
  "endTime s = Some E \<Longrightarrow>
   tick tz now s =
     (if max 0 \<lceil>real_of_int (E - now) / 1000\<rceil> = 0
      then complete_timer tz now (s\<lparr>timeRemaining := 0\<rparr>)
      else s\<lparr>timeRemaining := max 0 \<lceil>real_of_int (E - now) / 1000\<rceil>\<rparr>)"
proof -
  assume e: "endTime s = Some E"
  define c where "c = \<lceil>real_of_int (E - now) / 1000\<rceil>"
  have "tick tz now s =
     (let timeLeft = max 0 c; s' = s\<lparr>timeRemaining := timeLeft\<rparr>
      in if timeRemaining s' \<le> 0 then complete_timer tz now s' else s')"
    unfolding tick_def c_def e by (simp only: option.case)
  also have "\<dots> = (if max 0 c = 0 then complete_timer tz now (s\<lparr>timeRemaining := 0\<rparr>)
      else s\<lparr>timeRemaining := max 0 c\<rparr>)"
    by (simp add: Let_def max_def)
  finally show ?thesis unfolding c_def .
qed

text \<open>
  Claim C4. With end time \<open>E\<close>, \<^verbatim>\<open>tick\<close> at \<open>now\<close> computes
  \<open>max 0 \<lceil>(E - now) / 1000\<rceil>\<close>. When that is not 0, the result is the state with this
  remaining time and nothing else changed. When it is 0, the result is what \<^verbatim>\<open>complete\<close>
  makes of the state with remaining time 0. One \<^verbatim>\<open>timerComplete\<close> event more has been
  dispatched in the second case and none in the first. The remaining time before the tick
  has no influence on the result.
\<close>

theorem tick_from_endTime:
  assumes "endTime s = Some E"
  shows "(max 0 \<lceil>real_of_int (E - now) / 1000\<rceil> \<noteq> 0 \<longrightarrow>
           tick tz now s = s\<lparr>timeRemaining := max 0 \<lceil>real_of_int (E - now) / 1000\<rceil>\<rparr>)
   \<and> (max 0 \<lceil>real_of_int (E - now) / 1000\<rceil> = 0 \<longrightarrow>
           tick tz now s = complete_timer tz now (s\<lparr>timeRemaining := 0\<rparr>))
   \<and> length (timerComplete (tick tz now s)) =
        length (timerComplete s) + (if max 0 \<lceil>real_of_int (E - now) / 1000\<rceil> = 0 then 1 else 0)
   \<and> tick tz now (s\<lparr>timeRemaining := x\<rparr>) = tick tz now s"
  using assms by (simp add: tick_unfold complete_timer_fields)

text \<open>
  Witness for C4: the initial timer started at 0 ends at 1500000; a tick at 2500 leaves 1498
  seconds and dispatches nothing, a tick at 1500000 completes the session.
\<close>

theorem tick_from_endTime_witness:
  "endTime (start 0 (Timer_initial empty_storage)) = Some 1500000
   \<and> timeRemaining (tick 0 2500 (start 0 (Timer_initial empty_storage))) = 1498
   \<and> length (timerComplete (tick 0 2500 (start 0 (Timer_initial empty_storage)))) = 0
   \<and> length (timerComplete (tick 0 1500000 (start 0 (Timer_initial empty_storage)))) = 1"
proof -
  let ?s = "start 0 (Timer_initial empty_storage)"
  have e: "endTime ?s = Some 1500000" and n: "timerComplete ?s = []"
    by (simp_all add: start_def Timer_initial_def falsy_def Let_def)
  have a: "max 0 \<lceil>real_of_int (1500000 - 2500) / 1000\<rceil> = 1498"
    by simp
  have b: "max 0 \<lceil>real_of_int (1500000 - 1500000) / 1000\<rceil> = 0"
    by simp
  show ?thesis
    using e n tick_from_endTime [OF e, of 2500 0 0] tick_from_endTime [OF e, of 1500000 0 0]
    unfolding a b by (simp add: complete_timer_fields)
qed

section \<open>Timer: a completed work session\<close>

lemma getTimerData_after_set:
  "\<not> denied ls \<Longrightarrow> \<not> full ls \<Longrightarrow> getTimerData (setTimerData ls d) = d"
  by (simp add: getTimerData_def setTimerData_def set_storage_ok get_stored)

lemma setTimerData_flags:
  "\<not> denied ls \<Longrightarrow> \<not> full ls \<Longrightarrow> \<not> denied (setTimerData ls d) \<and> \<not> full (setTimerData ls d)"
  by (simp add: setTimerData_def set_storage_ok)

lemma incrementSession_stats:
  assumes "\<not> denied ls" "\<not> full ls"
  shows "getTimerData (incrementSession tz now ls) =
     (getTimerData ls)\<lparr>sessionsToday :=
         (if lastSession (getTimerData ls) = Some (toDateString tz now)
          then sessionsToday (getTimerData ls) else 0) + 1,
       totalSessions := totalSessions (getTimerData ls) + 1,
       lastSession := Some (toDateString tz now)\<rparr>"
  using assms by (simp add: incrementSession_def getTimerData_after_set Let_def)

lemma incrementSession_flags:
  "\<not> denied ls \<Longrightarrow> \<not> full ls \<Longrightarrow>
   \<not> denied (incrementSession tz now ls) \<and> \<not> full (incrementSession tz now ls)"
  by (simp add: incrementSession_def setTimerData_flags Let_def)

lemma addStudyTime_stats:
  "\<not> denied ls \<Longrightarrow> \<not> full ls \<Longrightarrow>
   getTimerData (addStudyTime minutes ls) =
     (getTimerData ls)\<lparr>totalMinutes := totalMinutes (getTimerData ls) + minutes\<rparr>"
  by (simp add: addStudyTime_def getTimerData_after_set Let_def)

text \<open>A store that refuses writes keeps the statistics as they were.\<close>

lemma complete_timer_store_full:
  "denied (timer_storage s) \<or> full (timer_storage s) \<Longrightarrow>
   timer_storage (complete_timer tz now s) = timer_storage s"
  by (cases "mode s")
    (simp_all add: complete_timer_fields addStudyTime_def incrementSession_def setTimerData_def
      set_storage_failed Let_def)


text \<open>
  Counterexample for C3 as stated: the store holds the statistics of the day before, with 3
  sessions that day. After the session completes, \<open>sessionsToday\<close> is 1, not 4:
  \<^verbatim>\<open>incrementSession\<close> resets the daily count on a new day before it counts.
\<close>

theorem work_session_new_day_counterexample:
  "sessionsToday (getTimerData
      \<lparr>items = [TIMER_DATA \<mapsto> Json \<lparr>sessionsToday = 3, totalSessions = 5, totalMinutes = 100,
                                        lastSession = Some (- 1)\<rparr>],
       denied = False, full = False\<rparr>) = 3
   \<and> sessionsToday (getTimerData (timer_storage (tick 0 1500000 (start 0 (Timer_initial
      \<lparr>items = [TIMER_DATA \<mapsto> Json \<lparr>sessionsToday = 3, totalSessions = 5, totalMinutes = 100,
                                        lastSession = Some (- 1)\<rparr>],
       denied = False, full = False\<rparr>))))) = 1"
proof -
  let ?ls = "\<lparr>items = [TIMER_DATA \<mapsto> Json \<lparr>sessionsToday = 3, totalSessions = 5,
                 totalMinutes = 100, lastSession = Some (- 1)\<rparr>],
               denied = False, full = False\<rparr> :: TimerStats local_storage"
  let ?s = "start 0 (Timer_initial ?ls)"
  have d: "getTimerData ?ls = \<lparr>sessionsToday = 3, totalSessions = 5, totalMinutes = 100,
                                lastSession = Some (- 1)\<rparr>"
    by (simp add: getTimerData_def get_stored)
  have e: "endTime ?s = Some 1500000"
    by (simp add: start_def Timer_initial_def falsy_def Let_def)
  have f: "mode ?s = work" "timer_storage ?s = ?ls" "durations ?s work = 1500"
    by (simp_all add: start_def Timer_initial_def falsy_def Let_def)
  have t: "tick 0 1500000 ?s = complete_timer 0 1500000 (?s\<lparr>timeRemaining := 0\<rparr>)"
    using tick_unfold [OF e, of 0 1500000] by simp
  have i: "sessionsToday (getTimerData (incrementSession 0 1500000 ?ls)) = 1"
    using incrementSession_stats [of ?ls 0 1500000] d
    by (simp add: toDateString_def msPerDay_def)
  have "sessionsToday (getTimerData (addStudyTime 25 (incrementSession 0 1500000 ?ls))) = 1"
    using addStudyTime_stats [of "incrementSession 0 1500000 ?ls" 25]
      incrementSession_flags [of ?ls 0 1500000] i by simp
  then show ?thesis
    unfolding t using d f by (simp add: complete_timer_fields)
qed

text \<open>
  Claim C3, amended. A timer in work mode with durations 1500 and 300 seconds, at most 1500
  seconds remaining, started at 0 over a store that takes writes, receives a tick at
  1500000 ms. The tick computes 0 and runs \<^verbatim>\<open>complete\<close> on the state with remaining time 0;
  one \<^verbatim>\<open>timerComplete\<close> event is dispatched; the statistics read from the store have
  \<open>sessionsToday\<close> one above today's count so far (the stored count when the last session
  was today, 0 otherwise), \<open>totalSessions\<close> one higher and \<open>totalMinutes\<close> 25 higher; the
  mode is break with 300 seconds remaining, and the timer is neither running nor paused,
  with no interval handle and no end time.
\<close>

theorem work_session_completion:
  assumes "\<not> isRunning s" "mode s = work" "timeRemaining s \<le> 1500"
    "durations s work = 1500" "durations s break = 300"
    "\<not> denied (timer_storage s)" "\<not> full (timer_storage s)"
  shows "complete_timer tz 1500000 ((start 0 s)\<lparr>timeRemaining := 0\<rparr>) = tick tz 1500000 (start 0 s)
   \<and> timerComplete (tick tz 1500000 (start 0 s)) =
       timerComplete s @ [(''Work session complete! Time for a break?'', work)]
   \<and> getTimerData (timer_storage (tick tz 1500000 (start 0 s))) =
       \<lparr>sessionsToday =
          (if lastSession (getTimerData (timer_storage s)) = Some (toDateString tz 1500000)
           then sessionsToday (getTimerData (timer_storage s)) else 0) + 1,
        totalSessions = totalSessions (getTimerData (timer_storage s)) + 1,
        totalMinutes = totalMinutes (getTimerData (timer_storage s)) + 25,
        lastSession = Some (toDateString tz 1500000)\<rparr>
   \<and> mode (tick tz 1500000 (start 0 s)) = break
   \<and> timeRemaining (tick tz 1500000 (start 0 s)) = 300
   \<and> \<not> isRunning (tick tz 1500000 (start 0 s))
   \<and> \<not> isPaused (tick tz 1500000 (start 0 s))
   \<and> \<not> interval (tick tz 1500000 (start 0 s))
   \<and> startTime (tick tz 1500000 (start 0 s)) = None
   \<and> endTime (tick tz 1500000 (start 0 s)) = None"
proof -
  let ?s1 = "start 0 s"
  have e: "endTime ?s1 = Some (timeRemaining s * 1000)"
    and f: "isRunning ?s1" "mode ?s1 = work" "durations ?s1 = durations s"
      "timer_storage ?s1 = timer_storage s" "timerComplete ?s1 = timerComplete s"
    using assms(1,2) by (simp_all add: start_def Let_def)
  have "real_of_int (timeRemaining s * 1000 - 1500000) / 1000 \<le> 0"
    using assms(3) by simp
  then have z: "max 0 \<lceil>real_of_int (timeRemaining s * 1000 - 1500000) / 1000\<rceil> = 0"
    by (simp add: ceiling_le_zero)
  have t: "tick tz 1500000 ?s1 = complete_timer tz 1500000 (?s1\<lparr>timeRemaining := 0\<rparr>)"
    using tick_unfold [OF e, of tz 1500000] z by simp
  have st: "getTimerData (addStudyTime 25 (incrementSession tz 1500000 (timer_storage s))) =
       \<lparr>sessionsToday =
          (if lastSession (getTimerData (timer_storage s)) = Some (toDateString tz 1500000)
           then sessionsToday (getTimerData (timer_storage s)) else 0) + 1,
        totalSessions = totalSessions (getTimerData (timer_storage s)) + 1,
        totalMinutes = totalMinutes (getTimerData (timer_storage s)) + 25,
        lastSession = Some (toDateString tz 1500000)\<rparr>"
    using assms(6,7)
    by (simp add: addStudyTime_stats incrementSession_flags incrementSession_stats)
  show ?thesis
    unfolding t using f assms(2,4,5) st by (simp add: complete_timer_fields)
qed

text \<open>
  Witness for C3: the initial timer over an empty store. The statistics go from the
  defaults to one session today, one in total and 25 minutes.
\<close>

theorem work_session_completion_witness:
  "getTimerData (timer_storage (Timer_initial empty_storage)) = defaultTimerData
   \<and> getTimerData (timer_storage (tick 0 1500000 (start 0 (Timer_initial empty_storage)))) =
       \<lparr>sessionsToday = 1, totalSessions = 1, totalMinutes = 25, lastSession = Some 0\<rparr>
   \<and> mode (tick 0 1500000 (start 0 (Timer_initial empty_storage))) = break
   \<and> timeRemaining (tick 0 1500000 (start 0 (Timer_initial empty_storage))) = 300
   \<and> \<not> isRunning (tick 0 1500000 (start 0 (Timer_initial empty_storage)))
   \<and> timerComplete (tick 0 1500000 (start 0 (Timer_initial empty_storage))) =
       [(''Work session complete! Time for a break?'', work)]"
proof -
  let ?s = "Timer_initial empty_storage"
  have h: "\<not> isRunning ?s" "mode ?s = work" "timeRemaining ?s \<le> 1500"
    "durations ?s work = 1500" "durations ?s break = 300"
    "\<not> denied (timer_storage ?s)" "\<not> full (timer_storage ?s)"
    by (simp_all add: Timer_initial_def empty_storage_def)
  have d: "getTimerData (timer_storage ?s) = defaultTimerData"
    by (simp add: Timer_initial_def empty_storage_def getTimerData_def get_absent)
  have n: "timerComplete ?s = []"
    by (simp add: Timer_initial_def)
  have day: "toDateString 0 1500000 = 0"
    by (simp add: toDateString_def msPerDay_def)
  show ?thesis
    using work_session_completion [OF h, of 0] d n
    by (simp add: day defaultTimerData_def)
qed

section \<open>Timer: pause and resume\<close>

lemma ceil_ms: "\<lceil>real_of_int (x * 1000) / 1000\<rceil> = x"
  by simp

lemma tick_step:
  assumes "endTime s = Some (t + r * 1000)" "1 < r"
  shows "tick tz (t + 1000) s = s\<lparr>timeRemaining := r - 1\<rparr>"
proof -
  have "t + r * 1000 - (t + 1000) = (r - 1) * 1000" by (simp add: algebra_simps)
  then have "\<lceil>real_of_int (t + r * 1000 - (t + 1000)) / 1000\<rceil> = r - 1"
    using ceil_ms[of "r - 1"] by simp
  then show ?thesis using assms by (simp add: tick_def Let_def max_def)
qed

text \<open>
  While the end time is more than \<open>n\<close> seconds away, \<open>n\<close> callbacks only count the
  remaining time down.
\<close>

lemma ticks_before_end:
  "interval s \<Longrightarrow> endTime s = Some (t + r * 1000) \<Longrightarrow> int n < r \<Longrightarrow>
   ticks tz t n s = (if n = 0 then s else s\<lparr>timeRemaining := r - int n\<rparr>)"
proof (induction n arbitrary: t r s)
  case 0
  then show ?case by simp
next
  case (Suc n)
  let ?s1 = "s\<lparr>timeRemaining := r - 1\<rparr>"
  have r1: "1 < r" using Suc.prems by simp
  have cb: "interval_callback tz (t + 1000) s = ?s1"
    using Suc.prems r1 by (simp add: interval_callback_def tick_step)
  have e1: "endTime ?s1 = Some ((t + 1000) + (r - 1) * 1000)"
    using Suc.prems by (simp add: algebra_simps)
  have "ticks tz (t + 1000) n ?s1 = (if n = 0 then ?s1 else ?s1\<lparr>timeRemaining := (r - 1) - int n\<rparr>)"
    by (rule Suc.IH) (use Suc.prems e1 in auto)
  then show ?case using cb by (simp add: algebra_simps)
qed


text \<open>
  Counterexample for C2 as stated: a timer paused with 3 seconds left (started at 1000, last
  tick at 1498000). Resumed at 2000000, it completes at the third callback; the resume after
  the pause then starts the break, and the remaining time is 300 seconds, not 3 - 5.
\<close>

theorem pause_resume_short_counterexample:
  "\<not> isRunning (pause (tick 0 1498000 (start 1000 (Timer_initial empty_storage))))
   \<and> timeRemaining (pause (tick 0 1498000 (start 1000 (Timer_initial empty_storage)))) = 3
   \<and> timeRemaining (pause_resume 0 2000000 10000
        (pause (tick 0 1498000 (start 1000 (Timer_initial empty_storage))))) = 300
   \<and> mode (pause_resume 0 2000000 10000
        (pause (tick 0 1498000 (start 1000 (Timer_initial empty_storage))))) = break"
  by (simp add: pause_resume_def eval_nat_numeral interval_callback_def tick_def start_def
      pause_fields complete_timer_fields Timer_initial_def falsy_def Let_def)

text \<open>
  Claim C2, amended. For a timer that is not running, with more than 5 seconds remaining:
  after start, five callbacks one second apart, pause, any length of wall-clock time, start
  again and a tick at that instant, the remaining time is the initial one less 5 seconds,
  and the timer runs towards an end time that far from the instant of the resume.
\<close>

theorem pause_resume_keeps_remaining:
  assumes "\<not> isRunning s" "timeRemaining s = R" "5 < R"
  shows "timeRemaining (pause_resume tz t wait s) = R - 5
   \<and> isRunning (pause_resume tz t wait s)
   \<and> endTime (pause_resume tz t wait s) = Some (t + 5000 + wait + (R - 5) * 1000)"
proof -
  let ?s1 = "start t s"
  have i: "interval ?s1" and e: "endTime ?s1 = Some (t + R * 1000)" and run: "isRunning ?s1"
    using assms by (auto simp: start_def Let_def)
  have tk: "ticks tz t 5 ?s1 = ?s1\<lparr>timeRemaining := R - 5\<rparr>"
    using ticks_before_end[OF i e, of 5 tz] assms by simp
  let ?s3 = "pause (?s1\<lparr>timeRemaining := R - 5\<rparr>)"
  have p: "\<not> isRunning ?s3" "timeRemaining ?s3 = R - 5"
    using run by (auto simp: pause_def Let_def)
  let ?s4 = "start (t + 5000 + wait) ?s3"
  have e4: "endTime ?s4 = Some (t + 5000 + wait + (R - 5) * 1000)" and r4: "isRunning ?s4"
    using p by (auto simp: start_def Let_def)
  have "tick tz (t + 5000 + wait) ?s4 = ?s4\<lparr>timeRemaining := R - 5\<rparr>"
    using e4 assms ceil_ms[of "R - 5"] by (simp add: tick_def Let_def max_def)
  then show ?thesis using tk e4 r4 by (simp add: pause_resume_def Let_def)
qed

text \<open>
  Witness for C2: the initial timer, 1500 seconds, started at 0, paused after 5 seconds and
  resumed 10 seconds later, has 1495 seconds remaining.
\<close>

theorem pause_resume_keeps_remaining_witness:
  "\<not> isRunning (Timer_initial empty_storage)
   \<and> timeRemaining (Timer_initial empty_storage) = 1500
   \<and> timeRemaining (pause_resume 0 0 10000 (Timer_initial empty_storage)) = 1495
   \<and> endTime (pause_resume 0 0 10000 (Timer_initial empty_storage)) = Some 1510000"
proof -
  have h: "\<not> isRunning (Timer_initial empty_storage)"
    "timeRemaining (Timer_initial empty_storage) = 1500" "(5::int) < 1500"
    by (simp_all add: Timer_initial_def)
  show ?thesis
    using h pause_resume_keeps_remaining [OF h, of 0 0 10000] by simp
qed


end
